theory Spec2Isabelle
  imports Main "HOL-Library.Sublist" "HOL-Library.Multiset"
begin

section \<open>Python strings\<close>

text \<open>
  The script is Python; its strings are sequences of characters. A \<^typ>\<open>string\<close> stands for
  a Python \<open>str\<close>, one \<^typ>\<open>char\<close> per character (the characters the script itself writes
  all lie below 256). The operators used by the script are written out here.
\<close>

text \<open>\<open>sub in s\<close>: \<open>sub\<close> occurs in \<open>s\<close> as a contiguous run of characters.\<close>

fun starts_with :: "string \<Rightarrow> string \<Rightarrow> bool" where
  "starts_with s [] = True"
| "starts_with [] (c # cs) = False"
| "starts_with (d # ds) (c # cs) = (d = c \<and> starts_with ds cs)"

fun in_str :: "string \<Rightarrow> string \<Rightarrow> bool" where
  "in_str sub [] = (sub = [])"
| "in_str sub (c # cs) = (starts_with (c # cs) sub \<or> in_str sub cs)"

text \<open>\<open>s.lower()\<close> on the characters below 256: the ASCII capitals and the Latin-1 capitals.\<close>

definition lower_char :: "char \<Rightarrow> char" where
  "lower_char c =
     (let n = of_char c :: nat
      in if (65 \<le> n \<and> n \<le> 90) \<or> (192 \<le> n \<and> n \<le> 222 \<and> n \<noteq> 215)
         then char_of (n + 32) else c)"

definition lower :: "string \<Rightarrow> string" where
  "lower s = map lower_char s"

section \<open>URL utilities\<close>

text \<open>
  \<open>urllib.parse.urlparse\<close> is a library function. The utilities take it as the parameter
  \<open>urlparse\<close>; \<open>None\<close> stands for the exception it raises on a URL it rejects. Of the
  six components it returns, the script reads three.
\<close>

record parse_result =
  scheme :: string
  netloc :: string
  path :: string

type_synonym urlparse = "string \<Rightarrow> parse_result option"

definition clean_url :: "urlparse \<Rightarrow> string \<Rightarrow> string" where
  "clean_url urlparse url =
     (case urlparse url of
        Some parsed \<Rightarrow> scheme parsed @ ''://'' @ netloc parsed @ path parsed
      | None \<Rightarrow> url)"

definition extract_domain :: "urlparse \<Rightarrow> string \<Rightarrow> string" where
  "extract_domain urlparse url =
     (case urlparse url of
        Some parsed \<Rightarrow> netloc parsed
      | None \<Rightarrow> '''')"

definition trackers :: "string list" where
  "trackers = [''analytics'', ''google-analytics'', ''doubleclick'', ''facebook.com/tr'',
               ''ads.'', ''banner'', ''tracking'']"

definition is_ad_or_tracker_url :: "string \<Rightarrow> bool" where
  "is_ad_or_tracker_url url = list_ex (\<lambda>tracker. in_str tracker (lower url)) trackers"

definition is_domain_blocked :: "urlparse \<Rightarrow> string \<Rightarrow> string list \<Rightarrow> bool" where
  "is_domain_blocked urlparse url excluded_domains =
     (let domain = extract_domain urlparse url
      in list_ex (\<lambda>excluded. in_str excluded domain) excluded_domains)"

text \<open>
  A parser for concrete runs: it cuts a URL of the plain shape \<open>scheme://host/path?query#fragment\<close>
  the way \<open>urlparse\<close> does, and never raises. It is used only to evaluate the script on
  explicit URLs; every general theorem below holds for any \<open>urlparse\<close>.
\<close>

definition url_delims :: "char set" where
  "url_delims = {CHR ''/'', CHR ''?'', CHR ''#''}"

fun cut_scheme :: "string \<Rightarrow> string \<Rightarrow> string \<times> string" where
  "cut_scheme acc [] = ('''', rev acc)"
| "cut_scheme acc (c # cs) =
     (if c = CHR '':'' then (rev acc, cs)
      else if c \<in> url_delims then ('''', rev acc @ c # cs)
      else cut_scheme (c # acc) cs)"

definition plain_urlparse :: urlparse where
  "plain_urlparse url =
     (let (sch, rest) = cut_scheme [] url;
          (loc, rest') = (if starts_with rest ''//''
                          then (takeWhile (\<lambda>c. c \<notin> url_delims) (drop 2 rest),
                                dropWhile (\<lambda>c. c \<notin> url_delims) (drop 2 rest))
                          else ('''', rest))
      in Some \<lparr>scheme = lower sch, netloc = loc,
               path = takeWhile (\<lambda>c. c \<noteq> CHR ''?'' \<and> c \<noteq> CHR ''#'') rest'\<rparr>)"

section \<open>Search aggregator\<close>

text \<open>
  The configuration is a JSON object read with \<open>dict.get(key, default)\<close>: every key may be
  absent, and the default then applies.
\<close>

record category =
  enabled :: "bool option"
  base_sites :: "string list option"

record config =
  total_sources_limit :: "int option"
  categories :: "category list option"
  user_custom_sites :: "string list option"
  excluded_domains :: "string list option"

definition get_or :: "'a option \<Rightarrow> 'a \<Rightarrow> 'a" where
  "get_or v d = (case v of Some x \<Rightarrow> x | None \<Rightarrow> d)"

text \<open>
  The aggregator calls the search provider \<open>search_duckduckgo(query, limit)\<close> several times.
  The provider talks to the network, so it is a function of a world state \<open>'w\<close> that it may
  change: two calls with the same arguments may answer differently.
\<close>

type_synonym 'w provider = "string \<Rightarrow> int \<Rightarrow> 'w \<Rightarrow> string list \<times> 'w"

text \<open>The loop over sites: \<open>for site in sites: all_urls.extend(search("site:{site} {query}", n))\<close>.\<close>

fun search_sites ::
  "'w provider \<Rightarrow> string \<Rightarrow> int \<Rightarrow> string list \<Rightarrow> string list \<Rightarrow> 'w \<Rightarrow> string list \<times> 'w" where
  "search_sites search query n [] all_urls w = (all_urls, w)"
| "search_sites search query n (site # sites) all_urls w =
     (let site_query = ''site:'' @ site @ '' '' @ query;
          (site_urls, w') = search site_query n w
      in search_sites search query n sites (all_urls @ site_urls) w')"

text \<open>The loop over categories; a category that is not enabled is skipped.\<close>

fun search_categories ::
  "'w provider \<Rightarrow> string \<Rightarrow> category list \<Rightarrow> string list \<Rightarrow> 'w \<Rightarrow> string list \<times> 'w" where
  "search_categories search query [] all_urls w = (all_urls, w)"
| "search_categories search query (cat # cats) all_urls w =
     (if \<not> get_or (enabled cat) False then search_categories search query cats all_urls w
      else
        let (all_urls', w') =
              search_sites search query 3 (take 2 (get_or (base_sites cat) [])) all_urls w
        in search_categories search query cats all_urls' w')"

text \<open>Steps 1 to 3 of \<open>smart_search_impl\<close>: the candidate list \<open>all_urls\<close>.\<close>

definition collect_urls :: "'w provider \<Rightarrow> string \<Rightarrow> config \<Rightarrow> 'w \<Rightarrow> string list \<times> 'w" where
  "collect_urls search query cfg w =
     (let total_limit = get_or (total_sources_limit cfg) 15;
          (general_urls, w1) = search query (total_limit div 2) w;
          (all_urls2, w2) =
             search_categories search query (get_or (categories cfg) []) ([] @ general_urls) w1
      in search_sites search query 2 (take 3 (get_or (user_custom_sites cfg) [])) all_urls2 w2)"

text \<open>
  Step 4, the filter loop. \<open>filtered_urls\<close> and \<open>seen\<close> are the loop's two variables; the
  \<open>break\<close> leaves the loop with the list as it is.
\<close>

fun filter_urls ::
  "urlparse \<Rightarrow> string list \<Rightarrow> int \<Rightarrow> string list \<Rightarrow> string list \<Rightarrow> string set \<Rightarrow> string list" where
  "filter_urls urlparse excluded total_limit [] filtered_urls seen = filtered_urls"
| "filter_urls urlparse excluded total_limit (url # urls) filtered_urls seen =
     (if url \<notin> seen \<and> \<not> is_domain_blocked urlparse url excluded
      then
        (let filtered_urls' = filtered_urls @ [url];
             seen' = insert url seen
         in if int (length filtered_urls') \<ge> total_limit then filtered_urls'
            else filter_urls urlparse excluded total_limit urls filtered_urls' seen')
      else filter_urls urlparse excluded total_limit urls filtered_urls seen)"

definition smart_search_impl ::
  "urlparse \<Rightarrow> 'w provider \<Rightarrow> string \<Rightarrow> config \<Rightarrow> 'w \<Rightarrow> string list \<times> 'w" where
  "smart_search_impl urlparse search query cfg w =
     (let total_limit = get_or (total_sources_limit cfg) 15;
          excluded = get_or (excluded_domains cfg) [];
          (all_urls, w') = collect_urls search query cfg w
      in (filter_urls urlparse excluded total_limit all_urls [] {}, w'))"


section \<open>More string operations\<close>

text \<open>\<open>str.isspace\<close> on the characters below 256; \<open>s.strip()\<close> removes such characters at both ends.\<close>

definition is_space :: "char \<Rightarrow> bool" where
  "is_space c =
     (let n = of_char c :: nat
      in (9 \<le> n \<and> n \<le> 13) \<or> (28 \<le> n \<and> n \<le> 32) \<or> n = 133 \<or> n = 160)"

definition strip :: "string \<Rightarrow> string" where
  "strip s = rev (dropWhile is_space (rev (dropWhile is_space s)))"

text \<open>\<open>s.split(sep)\<close> for a separator of one character: always at least one piece.\<close>

fun split_acc :: "char \<Rightarrow> string \<Rightarrow> string \<Rightarrow> string list" where
  "split_acc sep cur [] = [rev cur]"
| "split_acc sep cur (c # cs) =
     (if c = sep then rev cur # split_acc sep [] cs else split_acc sep (c # cur) cs)"

definition split_on :: "char \<Rightarrow> string \<Rightarrow> string list" where
  "split_on sep s = split_acc sep [] s"

text \<open>\<open>sep.join(parts)\<close>.\<close>

fun join :: "string \<Rightarrow> string list \<Rightarrow> string" where
  "join sep [] = []"
| "join sep [x] = x"
| "join sep (x # y # ys) = x @ sep @ join sep (y # ys)"

text \<open>The maximal runs of characters that are not white space (how a \<open>class\<close> attribute is cut).\<close>

fun words_acc :: "string \<Rightarrow> string \<Rightarrow> string list" where
  "words_acc cur [] = (if cur = [] then [] else [rev cur])"
| "words_acc cur (c # cs) =
     (if is_space c then (if cur = [] then words_acc [] cs else rev cur # words_acc [] cs)
      else words_acc (c # cur) cs)"

definition words :: "string \<Rightarrow> string list" where
  "words s = words_acc [] s"

text \<open>\<open>str(n)\<close> for a length: decimal digits.\<close>

definition digit :: "nat \<Rightarrow> char" where
  "digit d = char_of (48 + d)"

function str_nat :: "nat \<Rightarrow> string" where
  "str_nat n = (if n < 10 then [digit n] else str_nat (n div 10) @ [digit (n mod 10)])"
  by pat_completeness auto
termination
  by (relation "measure id") auto

declare str_nat.simps [simp del]

definition str_int :: "int \<Rightarrow> string" where
  "str_int i = (if i < 0 then CHR ''-'' # str_nat (nat (- i)) else str_nat (nat i))"

section \<open>The parsed document\<close>

text \<open>
  BeautifulSoup turns a page into a tree: a tag has a name, a dictionary of attributes and a
  list of children; a child is a tag or a piece of text. The document itself is a tag whose
  children are the top-level nodes. Comments and declarations, which carry no text of the
  page, are left out. The functions below are the library calls the script makes on such a
  tree, written out for the arguments it passes.
\<close>

datatype node = NavigableString string | Tag string "(string \<times> string) list" "node list"

fun descendants :: "node \<Rightarrow> node list" where
  "descendants (NavigableString s) = []"
| "descendants (Tag name attrs children) = concat (map (\<lambda>c. c # descendants c) children)"

text \<open>\<open>tag.get(key)\<close>.\<close>

fun get_attr :: "node \<Rightarrow> string \<Rightarrow> string option" where
  "get_attr (NavigableString s) key = None"
| "get_attr (Tag name attrs children) key = map_of attrs key"

fun is_tag_in :: "string list \<Rightarrow> node \<Rightarrow> bool" where
  "is_tag_in names (NavigableString s) = False"
| "is_tag_in names (Tag name attrs children) = (name \<in> set names)"

text \<open>\<open>soup.find_all(names)\<close>, and the same with a test on the tag: document order.\<close>

definition find_all :: "string list \<Rightarrow> (node \<Rightarrow> bool) \<Rightarrow> node \<Rightarrow> node list" where
  "find_all names P soup = filter (\<lambda>d. is_tag_in names d \<and> P d) (descendants soup)"

definition first :: "'a list \<Rightarrow> 'a option" where
  "first xs = (case xs of [] \<Rightarrow> None | x # _ \<Rightarrow> Some x)"

text \<open>\<open>soup.find(name)\<close>: the first tag of that \<^emph>\<open>name\<close>.\<close>

definition find_tag :: "string \<Rightarrow> node \<Rightarrow> node option" where
  "find_tag name soup = first (find_all [name] (\<lambda>_. True) soup)"

text \<open>\<open>soup.find(name, {key: value})\<close>: the first tag of that name with that attribute value.\<close>

definition find_attr :: "string \<Rightarrow> string \<Rightarrow> string \<Rightarrow> node \<Rightarrow> node option" where
  "find_attr name key v soup = first (find_all [name] (\<lambda>d. get_attr d key = Some v) soup)"

fun is_tag :: "node \<Rightarrow> bool" where
  "is_tag (NavigableString s) = False"
| "is_tag (Tag name attrs children) = True"

text \<open>
  \<open>soup.select_one(selector)\<close>. The script passes one selector through it,
  \<open>[role="main"]\<close>: the first tag whose \<open>role\<close> attribute is \<open>main\<close>.
\<close>

definition select_one :: "string \<Rightarrow> node \<Rightarrow> node option" where
  "select_one selector soup =
     (if selector = ''[role=\"main\"]''
      then first (filter (\<lambda>d. is_tag d \<and> get_attr d ''role'' = Some ''main'') (descendants soup))
      else None)"

text \<open>A tag carries a class when the class is one of the words of its \<open>class\<close> attribute.\<close>

definition has_class :: "string \<Rightarrow> node \<Rightarrow> bool" where
  "has_class c d = (case get_attr d ''class'' of None \<Rightarrow> False | Some v \<Rightarrow> c \<in> set (words v))"

text \<open>The text pieces below a node, in document order.\<close>

fun strings :: "node \<Rightarrow> string list" where
  "strings (NavigableString s) = [s]"
| "strings (Tag name attrs children) = concat (map strings children)"

text \<open>\<open>node.get_text(strip=True)\<close>: every piece stripped, the empty ones dropped, no separator.\<close>

definition get_text_strip :: "node \<Rightarrow> string" where
  "get_text_strip d = concat (filter (\<lambda>s. s \<noteq> []) (map strip (strings d)))"

text \<open>\<open>node.get_text(separator="\n")\<close>.\<close>

definition get_text_sep :: "string \<Rightarrow> node \<Rightarrow> string" where
  "get_text_sep sep d = join sep (strings d)"

text \<open>\<open>tag.string\<close>: the text of a tag with exactly one child, looked up through single children.\<close>

fun tag_string :: "node \<Rightarrow> string option" where
  "tag_string (NavigableString s) = Some s"
| "tag_string (Tag name attrs [c]) = tag_string c"
| "tag_string (Tag name attrs children) = None"

text \<open>\<open>for t in soup.find_all(names): t.decompose()\<close>: every tag with one of the names is cut out.\<close>

fun decompose_all :: "string list \<Rightarrow> node \<Rightarrow> node" where
  "decompose_all names (NavigableString s) = NavigableString s"
| "decompose_all names (Tag name attrs children) =
     Tag name attrs (map (decompose_all names) (filter (\<lambda>c. \<not> is_tag_in names c) children))"


section \<open>The environment of the script\<close>

text \<open>
  What the script takes from outside: the three flags set when it imports its libraries,
  and the library calls themselves. A call that may raise returns a sum, \<open>Inl\<close> carrying the
  text of the exception; \<open>requests_get\<close> stands for \<open>requests.get\<close> followed by
  \<open>raise_for_status\<close>, and acts on the world \<open>'w\<close>; \<open>html2text_handle\<close> stands for
  \<open>HTML2Text().handle(str(node))\<close>, \<open>None\<close> when it raises.
\<close>

record response =
  content :: string
  text_of :: string

record 'w env =
  CURL_CFFI_AVAILABLE :: bool
  BS4_AVAILABLE :: bool
  HTML2TEXT_AVAILABLE :: bool
  url_parse :: urlparse
  quote :: "string \<Rightarrow> string"
  requests_get :: "string \<Rightarrow> 'w \<Rightarrow> (string + response) \<times> 'w"
  BeautifulSoup :: "string \<Rightarrow> string + node"
  html2text_handle :: "node \<Rightarrow> string option"

section \<open>Single-page fetcher\<close>

text \<open>A result is the dictionary the script builds: keys and values in the order written.\<close>

type_synonym result = "(string \<times> string) list"

definition error_result :: "string \<Rightarrow> result" where
  "error_result message = [(''type'', ''error''), (''message'', message)]"

text \<open>\<open>a or b\<close> on values that are \<open>None\<close> or a string: the first that is neither \<open>None\<close> nor empty.\<close>

definition truthy :: "string option \<Rightarrow> bool" where
  "truthy v = (case v of None \<Rightarrow> False | Some s \<Rightarrow> s \<noteq> [])"

definition or_else :: "'a option \<Rightarrow> 'a option \<Rightarrow> 'a option" where
  "or_else a b = (case a of Some x \<Rightarrow> Some x | None \<Rightarrow> b)"

definition extract_title :: "node \<Rightarrow> string" where
  "extract_title soup =
     (let title = ''Sem t'' @ [char_of (237::nat)] @ ''tulo'';
          title_tag = or_else (find_attr ''meta'' ''property'' ''og:title'' soup)
                        (or_else (find_attr ''meta'' ''name'' ''title'' soup)
                           (find_tag ''title'' soup))
      in case title_tag of
           None \<Rightarrow> title
         | Some t \<Rightarrow>
             (if truthy (get_attr t ''content'') then the (get_attr t ''content'')
              else if truthy (tag_string t) then the (tag_string t)
              else title))"

definition selectors :: "string list" where
  "selectors = [''article'', ''main'', ''[role=\"main\"]'', ''.content'', ''.post'', ''.entry'']"

text \<open>
  The loop over the selectors. \<open>main_content\<close> is assigned in every round, and the \<open>break\<close>
  leaves the loop with the value just assigned.
\<close>

fun select_loop :: "node \<Rightarrow> string list \<Rightarrow> node option \<Rightarrow> node option" where
  "select_loop soup [] main_content = main_content"
| "select_loop soup (selector # rest) main_content =
     (let main_content' = (if starts_with selector ''['' then select_one selector soup
                           else find_tag selector soup)
      in if main_content' \<noteq> None \<and> length (get_text_strip (the main_content')) > 200
         then main_content'
         else select_loop soup rest main_content')"

definition select_main_content :: "node \<Rightarrow> node" where
  "select_main_content soup =
     (let main_content = select_loop soup selectors None
      in if main_content = None \<or> length (get_text_strip (the main_content)) < 200
         then (case find_tag ''body'' soup of Some body \<Rightarrow> body | None \<Rightarrow> soup)
         else the main_content)"

text \<open>The final clean-up: the lines stripped, the empty ones dropped.\<close>

definition clean_lines :: "string \<Rightarrow> string" where
  "clean_lines markdown_content =
     join ''\<newline>'' (filter (\<lambda>line. line \<noteq> []) (map strip (split_on CHR ''\<newline>'' markdown_content)))"

definition scrape_url :: "'w env \<Rightarrow> string \<Rightarrow> 'w \<Rightarrow> result \<times> 'w" where
  "scrape_url env url w =
     (if \<not> CURL_CFFI_AVAILABLE env
        then (error_result (''curl_cffi n'' @ [char_of (227::nat)] @ ''o est''
                              @ [char_of (225::nat)] @ '' instalado''), w)
      else if \<not> BS4_AVAILABLE env
        then (error_result (''beautifulsoup4 n'' @ [char_of (227::nat)] @ ''o est''
                              @ [char_of (225::nat)] @ '' instalado''), w)
      else if \<not> HTML2TEXT_AVAILABLE env
        then (error_result (''html2text n'' @ [char_of (227::nat)] @ ''o est''
                              @ [char_of (225::nat)] @ '' instalado''), w)
      else
        case requests_get env url w of
          (Inl e, w') \<Rightarrow> (error_result (''Failed to fetch URL: '' @ e), w')
        | (Inr response, w') \<Rightarrow>
            if length (content response) < 100
              then (error_result ''Resposta muito curta (< 100 bytes)'', w')
            else
              case BeautifulSoup env (content response) of
                Inl e \<Rightarrow> (error_result (''Failed to parse HTML: '' @ e), w')
              | Inr soup \<Rightarrow>
                  let title = extract_title soup;
                      soup1 = decompose_all [''script'', ''style'', ''meta'', ''link'', ''noscript''] soup;
                      soup2 = decompose_all [''nav'', ''header'', ''footer'', ''aside'', ''ads''] soup1;
                      main_content = select_main_content soup2;
                      markdown_content =
                        (case html2text_handle env main_content of
                           Some md \<Rightarrow> md
                         | None \<Rightarrow> get_text_sep ''\<newline>'' main_content);
                      final_content = clean_lines markdown_content
                  in if length final_content < 100
                       then (error_result (''Conte'' @ [char_of (250::nat)] @ ''do insuficiente (''
                                             @ str_nat (length final_content) @ '' chars)''), w')
                     else ([(''type'', ''success''),
                            (''url'', clean_url (url_parse env) url),
                            (''title'', take 500 title),
                            (''content'', take 30000 final_content),
                            (''markdown'', take 30000 final_content)], w'))"

section \<open>Search provider adapter\<close>

text \<open>The loop over the result links: \<open>urls\<close> grows, and the \<open>break\<close> follows the \<open>append\<close>.\<close>

fun collect_hrefs :: "int \<Rightarrow> node list \<Rightarrow> string list \<Rightarrow> string list" where
  "collect_hrefs limit [] urls = urls"
| "collect_hrefs limit (result # results) urls =
     (let href = get_attr result ''href''
      in if truthy href \<and> \<not> is_ad_or_tracker_url (the href)
         then (let urls' = urls @ [the href]
               in if int (length urls') \<ge> limit then urls'
                  else collect_hrefs limit results urls')
         else collect_hrefs limit results urls)"

definition result_links :: "node \<Rightarrow> node list" where
  "result_links soup = find_all [''a''] (has_class ''result__a'') soup"

definition search_duckduckgo :: "'w env \<Rightarrow> string \<Rightarrow> int \<Rightarrow> 'w \<Rightarrow> string list \<times> 'w" where
  "search_duckduckgo env query limit w =
     (if \<not> CURL_CFFI_AVAILABLE env \<or> \<not> BS4_AVAILABLE env then ([], w)
      else
        let search_url = ''https://duckduckgo.com/html/?q='' @ quote env query
        in case requests_get env search_url w of
             (Inl e, w') \<Rightarrow> ([], w')
           | (Inr response, w') \<Rightarrow>
               (case BeautifulSoup env (content response) of
                  Inl e \<Rightarrow> ([], w')
                | Inr soup \<Rightarrow> (collect_hrefs limit (result_links soup) [], w')))"


section \<open>Bulk fetch orchestrator\<close>

text \<open>
  A fetch task either returns a result or raises; \<open>Inl\<close> carries the text of the exception.
  \<open>scrape_with_logging\<close> is the task the pool runs for one URL.
\<close>

type_synonym 'w scraper = "string \<Rightarrow> 'w \<Rightarrow> (string + result) \<times> 'w"

definition is_success :: "result \<Rightarrow> bool" where
  "is_success result = (map_of result ''type'' = Some ''success'')"

definition scrape_with_logging :: "'w scraper \<Rightarrow> string \<Rightarrow> 'w \<Rightarrow> result \<times> 'w" where
  "scrape_with_logging scrape url w =
     (case scrape url w of
        (Inr result, w') \<Rightarrow> (result, w')
      | (Inl e, w') \<Rightarrow> ([(''type'', ''error''), (''message'', e), (''url'', url)], w'))"

text \<open>One future per submitted URL, in the order of submission; each holds what its task returned.\<close>

fun submit_all :: "'w scraper \<Rightarrow> string list \<Rightarrow> 'w \<Rightarrow> result list \<times> 'w" where
  "submit_all scrape [] w = ([], w)"
| "submit_all scrape (url # urls) w =
     (let (result, w1) = scrape_with_logging scrape url w;
          (futures, w2) = submit_all scrape urls w1
      in (result # futures, w2))"

text \<open>
  The loop over \<open>as_completed\<close>: the futures arrive in the order in which their tasks end,
  given here by the indices \<open>order\<close>, and every success is appended to \<open>results\<close>.
\<close>

fun collect_completed :: "result list \<Rightarrow> nat list \<Rightarrow> result list \<Rightarrow> result list" where
  "collect_completed futures [] results = results"
| "collect_completed futures (i # order) results =
     (let result = futures ! i
      in collect_completed futures order
           (if is_success result then results @ [result] else results))"

definition scrape_urls_bulk_impl ::
  "'w scraper \<Rightarrow> nat list \<Rightarrow> string list \<Rightarrow> 'w \<Rightarrow> result list \<times> 'w" where
  "scrape_urls_bulk_impl scrape order urls w =
     (let (futures, w') = submit_all scrape urls w
      in (collect_completed futures order [], w'))"

text \<open>The order of completion names every submitted task once.\<close>

definition completion_order :: "nat list \<Rightarrow> 'a list \<Rightarrow> bool" where
  "completion_order order urls = (mset order = mset [0..<length urls])"

text \<open>What the fetcher itself did for each URL, before \<open>scrape_with_logging\<close> wraps it.\<close>

fun fetch_outcomes :: "'w scraper \<Rightarrow> string list \<Rightarrow> 'w \<Rightarrow> (string + result) list" where
  "fetch_outcomes scrape [] w = []"
| "fetch_outcomes scrape (url # urls) w =
     (let (outcome, w1) = scrape url w in outcome # fetch_outcomes scrape urls w1)"

fun returned :: "(string + result) list \<Rightarrow> result list" where
  "returned [] = []"
| "returned (Inr result # outcomes) = result # returned outcomes"
| "returned (Inl e # outcomes) = returned outcomes"

text \<open>The fetcher of the script as a task: \<open>scrape_url\<close> returns a result on every path.\<close>

definition scrape_task :: "'w env \<Rightarrow> 'w scraper" where
  "scrape_task env url w = (let (result, w') = scrape_url env url w in (Inr result, w'))"

section \<open>Command dispatcher\<close>

text \<open>
  What \<open>json.loads\<close> returns: \<open>None\<close>, a truth value, a number, a string, a list or a
  dictionary. (Numbers with a fraction do not occur in the protocol and are left out.)
\<close>

datatype json = JNull | JBool bool | JInt int | JString string
  | JArray "json list" | JObject "(string \<times> json) list"

text \<open>Python's truth test, as \<open>if not url\<close> applies it; \<open>None\<close> stands for an absent key.\<close>

fun truth :: "json option \<Rightarrow> bool" where
  "truth None = False"
| "truth (Some JNull) = False"
| "truth (Some (JBool b)) = b"
| "truth (Some (JInt i)) = (i \<noteq> 0)"
| "truth (Some (JString s)) = (s \<noteq> [])"
| "truth (Some (JArray xs)) = (xs \<noteq> [])"
| "truth (Some (JObject kvs)) = (kvs \<noteq> [])"

fun type_name :: "json \<Rightarrow> string" where
  "type_name JNull = ''NoneType''"
| "type_name (JBool b) = ''bool''"
| "type_name (JInt i) = ''int''"
| "type_name (JString s) = ''str''"
| "type_name (JArray xs) = ''list''"
| "type_name (JObject kvs) = ''dict''"

definition error_envelope :: "string \<Rightarrow> json" where
  "error_envelope message = JObject [(''type'', JString ''error''), (''message'', JString message)]"

definition json_of_result :: "result \<Rightarrow> json" where
  "json_of_result result = JObject (map (\<lambda>(k, v). (k, JString v)) result)"

definition urls_envelope :: "string list \<Rightarrow> json" where
  "urls_envelope urls = JObject [(''type'', JString ''success''), (''urls'', JArray (map JString urls))]"

definition results_envelope :: "result list \<Rightarrow> json" where
  "results_envelope results =
     JObject [(''type'', JString ''success''), (''results'', JArray (map json_of_result results))]"

text \<open>
  The fields of an envelope are read with \<open>dict.get\<close> and passed on unchecked. The decoders
  below accept the shapes the protocol gives each field; \<open>None\<close> is any other shape, for
  which the run of the script is not modelled.
\<close>

fun as_string :: "json \<Rightarrow> string option" where
  "as_string (JString s) = Some s"
| "as_string _ = None"

fun as_strings :: "json list \<Rightarrow> string list option" where
  "as_strings [] = Some []"
| "as_strings (j # js) =
     (case (as_string j, as_strings js) of (Some s, Some ss) \<Rightarrow> Some (s # ss) | _ \<Rightarrow> None)"

fun as_string_list :: "json \<Rightarrow> string list option" where
  "as_string_list (JArray js) = as_strings js"
| "as_string_list _ = None"

text \<open>An optional key: absent gives \<open>Some None\<close>, present and well-shaped \<open>Some (Some v)\<close>.\<close>

definition opt_field ::
  "(json \<Rightarrow> 'a option) \<Rightarrow> (string \<times> json) list \<Rightarrow> string \<Rightarrow> 'a option option" where
  "opt_field decode kvs key =
     (case map_of kvs key of
        None \<Rightarrow> Some None
      | Some j \<Rightarrow> (case decode j of None \<Rightarrow> None | Some v \<Rightarrow> Some (Some v)))"

fun as_bool :: "json \<Rightarrow> bool option" where
  "as_bool (JBool b) = Some b"
| "as_bool _ = None"

fun as_int :: "json \<Rightarrow> int option" where
  "as_int (JInt i) = Some i"
| "as_int _ = None"

fun as_category :: "json \<Rightarrow> category option" where
  "as_category (JObject kvs) =
     (case (opt_field as_bool kvs ''enabled'', opt_field as_string_list kvs ''base_sites'') of
        (Some e, Some b) \<Rightarrow> Some \<lparr>enabled = e, base_sites = b\<rparr>
      | _ \<Rightarrow> None)"
| "as_category _ = None"

fun as_categories :: "json list \<Rightarrow> category list option" where
  "as_categories [] = Some []"
| "as_categories (j # js) =
     (case (as_category j, as_categories js) of (Some c, Some cs) \<Rightarrow> Some (c # cs) | _ \<Rightarrow> None)"

fun as_category_list :: "json \<Rightarrow> category list option" where
  "as_category_list (JArray js) = as_categories js"
| "as_category_list _ = None"

fun as_config :: "json \<Rightarrow> config option" where
  "as_config (JObject kvs) =
     (case (opt_field as_int kvs ''total_sources_limit'',
            opt_field as_category_list kvs ''categories'',
            opt_field as_string_list kvs ''user_custom_sites'',
            opt_field as_string_list kvs ''excluded_domains'') of
        (Some t, Some c, Some u, Some x) \<Rightarrow>
          Some \<lparr>total_sources_limit = t, categories = c, user_custom_sites = u,
                excluded_domains = x\<rparr>
      | _ \<Rightarrow> None)"
| "as_config _ = None"

text \<open>
  What the dispatcher needs beyond the environment of the fetcher: \<open>json.loads\<close> (\<open>Inl\<close> the
  text of its \<open>JSONDecodeError\<close>), \<open>str\<close> on a decoded value, and the order in which the
  pool's tasks complete, for a given number of tasks.
\<close>

record host =
  json_loads :: "string \<Rightarrow> string + json"
  py_str :: "json option \<Rightarrow> string"
  as_completed :: "nat \<Rightarrow> nat list"

text \<open>A run of \<open>main\<close>: the values printed on standard output, and the world it leaves.\<close>

definition dispatch ::
  "'w env \<Rightarrow> host \<Rightarrow> (string \<times> json) list \<Rightarrow> 'w \<Rightarrow> (json list \<times> 'w) option" where
  "dispatch env host command_data w =
     (let command = map_of command_data ''command'' in
      if command = Some (JString ''scrape'') then
        (let url = map_of command_data ''url'' in
         if \<not> truth url then Some ([error_envelope ''URL missing''], w)
         else case as_string (the url) of
                None \<Rightarrow> None
              | Some u \<Rightarrow> (let (result, w') = scrape_url env u w
                           in Some ([json_of_result result], w')))
      else if command = Some (JString ''search_duckduckgo'') then
        (let query = map_of command_data ''query'' in
         if \<not> truth query then Some ([error_envelope ''Query missing''], w)
         else case (as_string (the query), opt_field as_int command_data ''limit'') of
                (Some q, Some limit) \<Rightarrow>
                  (let (urls, w') = search_duckduckgo env q (get_or limit 5) w
                   in Some ([urls_envelope urls], w'))
              | _ \<Rightarrow> None)
      else if command = Some (JString ''smart_search'') then
        (let query = map_of command_data ''query'' in
         if \<not> truth query then Some ([error_envelope ''Query missing''], w)
         else case (as_string (the query),
                    as_config (get_or (map_of command_data ''config'') (JObject []))) of
                (Some q, Some cfg) \<Rightarrow>
                  (let (urls, w') = smart_search_impl (url_parse env) (search_duckduckgo env) q cfg w
                   in Some ([urls_envelope urls], w'))
              | _ \<Rightarrow> None)
      else if command = Some (JString ''search_and_scrape'') then
        (let query = map_of command_data ''query'' in
         if \<not> truth query then Some ([error_envelope ''Query missing''], w)
         else case (as_string (the query),
                    as_config (get_or (map_of command_data ''config'') (JObject []))) of
                (Some q, Some cfg) \<Rightarrow>
                  (let (urls, w') = smart_search_impl (url_parse env) (search_duckduckgo env) q cfg w
                   in if urls = [] then Some ([results_envelope []], w')
                      else
                        (let (results, w'') =
                               scrape_urls_bulk_impl (scrape_task env)
                                 (as_completed host (length urls)) urls w'
                         in Some ([results_envelope results], w'')))
              | _ \<Rightarrow> None)
      else if command = Some (JString ''scrape_urls_bulk'') then
        (let urls = get_or (map_of command_data ''urls'') (JArray []) in
         if \<not> truth (Some urls) then Some ([error_envelope ''URLs missing''], w)
         else case as_string_list urls of
                None \<Rightarrow> None
              | Some us \<Rightarrow>
                  (let (results, w') =
                         scrape_urls_bulk_impl (scrape_task env) (as_completed host (length us)) us w
                   in Some ([results_envelope results], w')))
      else if command = Some (JString ''check'') then
        (let missing = (if \<not> CURL_CFFI_AVAILABLE env then [''curl_cffi''] else [])
                       @ (if \<not> BS4_AVAILABLE env then [''beautifulsoup4''] else [])
                       @ (if \<not> HTML2TEXT_AVAILABLE env then [''html2text''] else [])
         in if missing \<noteq> []
            then Some ([error_envelope (''Missing: '' @ join '', '' missing)], w)
            else Some ([JObject [(''type'', JString ''success''),
                                 (''message'', JString ''All dependencies available'')]], w))
      else Some ([error_envelope (''Unknown command: '' @ py_str host command)], w))"

definition main :: "'w env \<Rightarrow> host \<Rightarrow> string \<Rightarrow> 'w \<Rightarrow> (json list \<times> 'w) option" where
  "main env host stdin w =
     (let input_data = strip stdin in
      if input_data = [] then Some ([error_envelope ''No input provided''], w)
      else
        case json_loads host input_data of
          Inl e \<Rightarrow> Some ([error_envelope (''Invalid JSON: '' @ e)], w)
        | Inr (JObject command_data) \<Rightarrow> dispatch env host command_data w
        | Inr other \<Rightarrow>
            Some ([error_envelope (''Critical error: '' @ [CHR 0x27] @ type_name other
                                    @ [CHR 0x27] @ '' object has no attribute '' @ [CHR 0x27]
                                    @ ''get'' @ [CHR 0x27])], w))"

text \<open>
  The script around \<open>main\<close>: \<open>main\<close> returns on every path above, the handlers of the
  \<open>__main__\<close> block (exit status 1) do not run, and the process ends with status 0.
\<close>

definition script ::
  "'w env \<Rightarrow> host \<Rightarrow> string \<Rightarrow> 'w \<Rightarrow> (json list \<times> int \<times> 'w) option" where
  "script env host stdin w =
     (case main env host stdin w of
        None \<Rightarrow> None
      | Some (stdout, w') \<Rightarrow> Some (stdout, 0, w'))"


section \<open>The properties, as the specification words them\<close>

subsection \<open>Aggregator\<close>

text \<open>The first occurrences of a list, in the order of the list.\<close>

definition first_occurrences :: "'a list \<Rightarrow> 'a list" where
  "first_occurrences xs = rev (remdups (rev xs))"

text \<open>
  A provider that keeps a trace: every call is recorded with its query, its limit and the
  URLs it returned, and is otherwise passed to the provider underneath.
\<close>

type_synonym call = "string \<times> int \<times> string list"

definition call_of :: "call \<Rightarrow> string \<times> int" where
  "call_of c = (fst c, fst (snd c))"

definition result_of :: "call \<Rightarrow> string list" where
  "result_of c = snd (snd c)"

definition traced :: "'w provider \<Rightarrow> (call list \<times> 'w) provider" where
  "traced search query n tw =
     (let (urls, w') = search query n (snd tw)
      in (urls, (fst tw @ [(query, n, urls)], w')))"

text \<open>
  The calls of steps 1 to 3 of the specification: the general query with half the total
  limit; for each enabled category, in order, its first two base sites with limit 3; the
  first three custom sites with limit 2.
\<close>

definition site_calls :: "string \<Rightarrow> int \<Rightarrow> string list \<Rightarrow> (string \<times> int) list" where
  "site_calls query n sites = map (\<lambda>site. (''site:'' @ site @ '' '' @ query, n)) sites"

definition expected_calls :: "string \<Rightarrow> config \<Rightarrow> (string \<times> int) list" where
  "expected_calls query cfg =
     [(query, get_or (total_sources_limit cfg) 15 div 2)]
     @ concat (map (\<lambda>cat. site_calls query 3 (take 2 (get_or (base_sites cat) [])))
                   (filter (\<lambda>cat. get_or (enabled cat) False) (get_or (categories cfg) [])))
     @ site_calls query 2 (take 3 (get_or (user_custom_sites cfg) []))"

text \<open>A mock provider: it answers the successive calls from a prepared list of answers.\<close>

definition scripted :: "string list list provider" where
  "scripted query n w = (case w of [] \<Rightarrow> ([], []) | urls # rest \<Rightarrow> (urls, rest))"

definition cfg4 :: config where
  "cfg4 = \<lparr>total_sources_limit = Some 4,
           categories = Some [\<lparr>enabled = Some True,
                                base_sites = Some [''a.org'', ''b.org'', ''c.org'']\<rparr>,
                              \<lparr>enabled = None, base_sites = Some [''d.org'']\<rparr>],
           user_custom_sites = Some [''e.org''],
           excluded_domains = Some [''blocked.com'']\<rparr>"

definition answers4 :: "string list list" where
  "answers4 = [[''https://x.com/1'', ''https://sub.blocked.com/p''],
               [''https://a.org/1'', ''https://x.com/1'', ''https://a.org/2''],
               [''https://b.org/1'', ''https://b.org/2''],
               [''https://e.org/1'']]"

subsection \<open>Fetcher\<close>

text \<open>The document after both removal passes, and the subtree the fetcher then selects.\<close>

definition stripped :: "node \<Rightarrow> node" where
  "stripped soup =
     decompose_all [''nav'', ''header'', ''footer'', ''aside'', ''ads'']
       (decompose_all [''script'', ''style'', ''meta'', ''link'', ''noscript''] soup)"

text \<open>The final text of a page: conversion, or the plain text when the converter raises, then the clean-up.\<close>

definition final_text :: "'w env \<Rightarrow> node \<Rightarrow> string" where
  "final_text env soup =
     (let main_content = select_main_content (stripped soup)
      in clean_lines (case html2text_handle env main_content of
                        Some md \<Rightarrow> md
                      | None \<Rightarrow> get_text_sep ''\<newline>'' main_content))"

definition all_available :: "'w env \<Rightarrow> bool" where
  "all_available env = (CURL_CFFI_AVAILABLE env \<and> BS4_AVAILABLE env \<and> HTML2TEXT_AVAILABLE env)"

text \<open>
  The selection as the specification describes it: one candidate per selector, in priority
  order, the last three selecting by class; the first candidate whose stripped text is longer
  than 200 characters is taken, and otherwise the body, or the document without a body.
\<close>

definition find_class :: "string \<Rightarrow> node \<Rightarrow> node option" where
  "find_class c soup = first (filter (\<lambda>d. is_tag d \<and> has_class c d) (descendants soup))"

definition candidates :: "node \<Rightarrow> node option list" where
  "candidates soup =
     [find_tag ''article'' soup, find_tag ''main'' soup, select_one ''[role=\"main\"]'' soup,
      find_class ''content'' soup, find_class ''post'' soup, find_class ''entry'' soup]"

definition acceptable :: "node option \<Rightarrow> bool" where
  "acceptable c = (case c of None \<Rightarrow> False | Some d \<Rightarrow> length (get_text_strip d) > 200)"

definition spec_main_content :: "node \<Rightarrow> node" where
  "spec_main_content soup =
     (case first (filter acceptable (candidates soup)) of
        Some (Some d) \<Rightarrow> d
      | _ \<Rightarrow> (case find_tag ''body'' soup of Some body \<Rightarrow> body | None \<Rightarrow> soup))"

text \<open>A mock transport: it answers the successive requests from a prepared list.\<close>

definition scripted_get :: "string \<Rightarrow> (string + response) list \<Rightarrow> (string + response) \<times> (string + response) list" where
  "scripted_get url w = (case w of [] \<Rightarrow> (Inl ''timed out'', []) | r # rest \<Rightarrow> (r, rest))"

text \<open>An environment for concrete runs: every library present, a fixed parse tree for any body.\<close>

definition test_env :: "node \<Rightarrow> (node \<Rightarrow> string option) \<Rightarrow> (string + response) list env" where
  "test_env soup handle =
     \<lparr>CURL_CFFI_AVAILABLE = True, BS4_AVAILABLE = True, HTML2TEXT_AVAILABLE = True,
      url_parse = plain_urlparse, quote = (\<lambda>q. q), requests_get = scripted_get,
      BeautifulSoup = (\<lambda>body. Inr soup), html2text_handle = handle\<rparr>"

text \<open>Two mock converters: one renders the plain text, one raises.\<close>

definition plain_handle :: "node \<Rightarrow> string option" where
  "plain_handle d = Some (get_text_sep ''\<newline>'' d)"

definition failing_handle :: "node \<Rightarrow> string option" where
  "failing_handle d = None"

definition body_of :: "nat \<Rightarrow> response" where
  "body_of n = \<lparr>content = replicate n CHR ''x'', text_of = replicate n CHR ''x''\<rparr>"

text \<open>A page with an article of 300 characters between a navigation bar and a footer.\<close>

definition article_page :: node where
  "article_page =
     Tag ''[document]'' []
       [Tag ''html'' []
          [Tag ''head'' [] [Tag ''title'' [] [NavigableString ''A page'']],
           Tag ''body'' []
             [Tag ''nav'' [] [NavigableString ''menu''],
              Tag ''article'' [] [Tag ''p'' [] [NavigableString (replicate 300 CHR ''a'')]],
              Tag ''footer'' [] [NavigableString ''imprint'']]]]"

text \<open>A page whose only text of length is a \<open>div\<close> of class \<open>content\<close>.\<close>

definition content_div :: node where
  "content_div = Tag ''div'' [(''class'', ''content'')] [NavigableString (replicate 300 CHR ''a'')]"

definition class_page :: node where
  "class_page =
     Tag ''[document]'' []
       [Tag ''html'' []
          [Tag ''body'' [] [content_div, Tag ''p'' [] [NavigableString ''more'']]]]"

text \<open>A short page: ten characters of text.\<close>

definition short_page :: node where
  "short_page = Tag ''[document]'' [] [Tag ''body'' [] [NavigableString ''ten chars.'']]"

subsection \<open>Provider adapter\<close>

text \<open>A results page with two organic links.\<close>

definition results_page :: node where
  "results_page =
     Tag ''[document]'' []
       [Tag ''body'' []
          [Tag ''a'' [(''class'', ''result__a''), (''href'', ''https://example.com/a'')] [],
           Tag ''a'' [(''class'', ''result__a''), (''href'', ''https://example.com/b'')] []]]"

subsection \<open>Orchestrator\<close>

text \<open>A mock fetcher: it answers the successive tasks from a prepared list of outcomes.\<close>

definition scripted_scrape :: "(string + result) list scraper" where
  "scripted_scrape url w = (case w of [] \<Rightarrow> (Inl ''no outcome'', []) | r # rest \<Rightarrow> (r, rest))"

definition ok_result :: "string \<Rightarrow> result" where
  "ok_result url = [(''type'', ''success''), (''url'', url), (''title'', ''t''),
                    (''content'', ''c''), (''markdown'', ''c'')]"

subsection \<open>Dispatcher\<close>

definition command_tags :: "string list" where
  "command_tags = [''scrape'', ''search_duckduckgo'', ''smart_search'', ''search_and_scrape'',
                   ''scrape_urls_bulk'', ''check'']"

text \<open>The command tag of an envelope is none of the six.\<close>

definition unrecognized :: "(string \<times> json) list \<Rightarrow> bool" where
  "unrecognized command_data =
     (case map_of command_data ''command'' of
        Some (JString tag) \<Rightarrow> tag \<notin> set command_tags
      | _ \<Rightarrow> True)"

text \<open>The required field of each command, from the table of the protocol.\<close>

definition required_fields :: "(string \<times> string) list" where
  "required_fields = [(''scrape'', ''url''), (''search_duckduckgo'', ''query''),
                      (''smart_search'', ''query''), (''search_and_scrape'', ''query''),
                      (''scrape_urls_bulk'', ''urls'')]"

text \<open>The envelope names a command and has no entry for its required field.\<close>

definition omits_required :: "(string \<times> json) list \<Rightarrow> bool" where
  "omits_required command_data =
     (case map_of command_data ''command'' of
        Some (JString tag) \<Rightarrow>
          (case map_of required_fields tag of
             Some field \<Rightarrow> map_of command_data field = None
           | None \<Rightarrow> False)
      | _ \<Rightarrow> False)"

text \<open>A mock decoder: it knows three inputs and rejects every other.\<close>

definition test_loads :: "string \<Rightarrow> string + json" where
  "test_loads s =
     (if s = ''{\"command\": \"scrape\"}'' then Inr (JObject [(''command'', JString ''scrape'')])
      else if s = ''{\"command\": \"fly\"}'' then Inr (JObject [(''command'', JString ''fly'')])
      else if s = ''[1]'' then Inr (JArray [JInt 1])
      else Inl ''Expecting value: line 1 column 1 (char 0)'')"

definition test_host :: host where
  "test_host = \<lparr>json_loads = test_loads,
                py_str = (\<lambda>v. case v of Some (JString s) \<Rightarrow> s | _ \<Rightarrow> ''None''),
                as_completed = (\<lambda>n. rev [0..<n])\<rparr>"

section \<open>Aggregator: the filter\<close>

lemma remdups_snoc: "remdups (ys @ [x]) = filter (\<lambda>y. y \<noteq> x) (remdups ys) @ [x]"
  by (induction ys) auto

lemma first_occurrences_Nil: "first_occurrences [] = []"
  by (simp add: first_occurrences_def)

lemma first_occurrences_Cons:
  "first_occurrences (x # xs) = x # filter (\<lambda>y. y \<noteq> x) (first_occurrences xs)"
  by (simp add: first_occurrences_def remdups_snoc rev_filter)

lemma distinct_first_occurrences: "distinct (first_occurrences xs)"
  by (simp add: first_occurrences_def)

lemma is_domain_blocked_iff:
  "is_domain_blocked up url ex \<longleftrightarrow> (\<exists>e\<in>set ex. in_str e (extract_domain up url))"
  by (simp add: is_domain_blocked_def list_ex_iff)

text \<open>
  The loop, started below the limit, returns what it has kept so far followed by the first
  occurrences of the remaining URLs that are neither seen nor blocked, cut at the limit.
\<close>

lemma filter_urls_eq:
  "int (length filtered) < lim \<Longrightarrow>
   filter_urls up ex lim urls filtered seen =
     filtered @ take (nat lim - length filtered)
       (filter (\<lambda>u. u \<notin> seen \<and> \<not> is_domain_blocked up u ex) (first_occurrences urls))"
proof (induction urls arbitrary: filtered seen)
  case Nil
  then show ?case by (simp add: first_occurrences_Nil)
next
  case (Cons url urls)
  let ?P = "\<lambda>s u. u \<notin> s \<and> \<not> is_domain_blocked up u ex"
  show ?case
  proof (cases "url \<notin> seen \<and> \<not> is_domain_blocked up url ex")
    case keep: True
    have fo: "filter (?P seen) (first_occurrences (url # urls))
               = url # filter (?P (insert url seen)) (first_occurrences urls)"
      using keep by (auto simp: first_occurrences_Cons intro!: filter_cong)
    show ?thesis
    proof (cases "int (length (filtered @ [url])) \<ge> lim")
      case True
      with Cons.prems have "nat lim - length filtered = 1" by simp
      with keep True fo show ?thesis by (simp add: Let_def)
    next
      case False
      then have lt: "int (length (filtered @ [url])) < lim" by simp
      have "nat lim - length filtered = Suc (nat lim - length (filtered @ [url]))"
        using lt by simp
      with keep False fo Cons.IH [OF lt, of "insert url seen"] show ?thesis
        by (simp add: Let_def)
    qed
  next
    case skip: False
    have "filter (?P seen) (first_occurrences (url # urls))
               = filter (?P seen) (first_occurrences urls)"
      using skip by (auto simp: first_occurrences_Cons intro!: filter_cong)
    with skip Cons.IH [OF Cons.prems, of seen] show ?thesis by auto
  qed
qed

text \<open>
  C1. With a positive total limit, the aggregator returns at most that many URLs, no URL
  twice (compared as the raw strings), no URL whose extracted domain contains an entry of
  the excluded domains, and its output is the list of first occurrences of the candidate
  list, without the blocked URLs, cut at the limit: a subsequence of the first occurrences,
  in the order of the concatenation. This holds for every provider and every \<open>urlparse\<close>.
\<close>

theorem smart_search_impl_filtered:
  assumes "total_limit = get_or (total_sources_limit cfg) 15" and "0 < total_limit"
    and "excluded = get_or (excluded_domains cfg) []"
    and "all_urls = fst (collect_urls search query cfg w)"
    and "out = fst (smart_search_impl urlparse search query cfg w)"
  shows "length out \<le> nat total_limit \<and>
         distinct out \<and>
         (\<forall>url\<in>set out. \<forall>e\<in>set excluded. \<not> in_str e (extract_domain urlparse url)) \<and>
         out = take (nat total_limit)
                 (filter (\<lambda>url. \<not> is_domain_blocked urlparse url excluded)
                    (first_occurrences all_urls)) \<and>
         subseq out (first_occurrences all_urls)"
proof -
  let ?keep = "filter (\<lambda>url. \<not> is_domain_blocked urlparse url excluded)
                 (first_occurrences all_urls)"
  have "int (length ([]::string list)) < total_limit" using assms(2) by simp
  from filter_urls_eq [OF this, of urlparse excluded all_urls "{}"]
  have "filter_urls urlparse excluded total_limit all_urls [] {} = take (nat total_limit) ?keep"
    by simp
  then have out: "out = take (nat total_limit) ?keep"
    using assms by (simp add: smart_search_impl_def split: prod.splits)
  have d: "distinct ?keep" by (simp add: distinct_first_occurrences)
  have s: "set out \<subseteq> set ?keep" unfolding out by (rule set_take_subset)
  have b: "\<forall>url\<in>set out. \<forall>e\<in>set excluded. \<not> in_str e (extract_domain urlparse url)"
    using s by (auto simp: is_domain_blocked_iff)
  have "subseq (take (nat total_limit) ?keep) ?keep"
    by (metis append_take_drop_id prefix_def prefix_imp_subseq)
  then have "subseq out (first_occurrences all_urls)"
    unfolding out using subseq_filter_left subseq_order.order_trans by blast
  with out d b show ?thesis by (simp add: distinct_take)
qed

theorem smart_search_impl_filtered_witness:
  "(0::int) < 4 \<and>
   fst (collect_urls scripted ''x'' cfg4 answers4)
     = [''https://x.com/1'', ''https://sub.blocked.com/p'', ''https://a.org/1'',
        ''https://x.com/1'', ''https://a.org/2'', ''https://b.org/1'', ''https://b.org/2'',
        ''https://e.org/1''] \<and>
   fst (smart_search_impl plain_urlparse scripted ''x'' cfg4 answers4)
     = [''https://x.com/1'', ''https://a.org/1'', ''https://a.org/2'', ''https://b.org/1''] \<and>
   length (fst (smart_search_impl plain_urlparse scripted ''x'' cfg4 answers4)) \<le> nat 4 \<and>
   distinct (fst (smart_search_impl plain_urlparse scripted ''x'' cfg4 answers4)) \<and>
   list_all (\<lambda>url. list_all (\<lambda>e. \<not> in_str e (extract_domain plain_urlparse url))
                         [''blocked.com''])
     (fst (smart_search_impl plain_urlparse scripted ''x'' cfg4 answers4))"
proof -
  have l: "(4::int) = get_or (total_sources_limit cfg4) 15" by code_simp
  have e: "[''blocked.com''] = get_or (excluded_domains cfg4) []" by code_simp
  have c: "fst (collect_urls scripted ''x'' cfg4 answers4)
     = [''https://x.com/1'', ''https://sub.blocked.com/p'', ''https://a.org/1'',
        ''https://x.com/1'', ''https://a.org/2'', ''https://b.org/1'', ''https://b.org/2'',
        ''https://e.org/1'']" by code_simp
  have v: "fst (smart_search_impl plain_urlparse scripted ''x'' cfg4 answers4)
     = [''https://x.com/1'', ''https://a.org/1'', ''https://a.org/2'', ''https://b.org/1'']"
    by code_simp
  have p: "(0::int) < 4" by simp
  note t = smart_search_impl_filtered [where search = scripted and query = "''x''"
      and w = answers4 and urlparse = plain_urlparse and cfg = cfg4, OF l p e refl refl]
  from t have "list_all (\<lambda>url. list_all (\<lambda>e. \<not> in_str e (extract_domain plain_urlparse url))
                                    [''blocked.com''])
                (fst (smart_search_impl plain_urlparse scripted ''x'' cfg4 answers4))"
    unfolding list_all_iff by blast
  with p c v t show ?thesis by blast
qed

section \<open>Aggregator: the calls\<close>

lemma traced_apply:
  "traced search query n (tr, w) =
     (case search query n w of (urls, w') \<Rightarrow> (urls, (tr @ [(query, n, urls)], w')))"
  by (simp add: traced_def)

lemma call_of_triple: "call_of (q, n, r) = (q, n)"
  by (simp add: call_of_def)

lemma result_of_triple: "result_of (q, n, r) = r"
  by (simp add: result_of_def)

text \<open>
  Each loop adds its calls to the trace, in order, and their results to the candidate list;
  the trace changes nothing else.
\<close>

lemma search_sites_traced:
  "\<exists>new w'.
     search_sites (traced search) query n sites all_urls (tr, w)
       = (all_urls @ concat (map result_of new), (tr @ new, w')) \<and>
     search_sites search query n sites all_urls w = (all_urls @ concat (map result_of new), w') \<and>
     map call_of new = site_calls query n sites"
proof (induction sites arbitrary: all_urls tr w)
  case Nil
  show ?case by (simp add: site_calls_def)
next
  case (Cons site sites)
  let ?q = "''site:'' @ site @ '' '' @ query"
  obtain urls w1 where s: "search ?q n w = (urls, w1)" by (cases "search ?q n w")
  from Cons.IH [of "all_urls @ urls" "tr @ [(?q, n, urls)]" w1]
  obtain new w' where
    a: "search_sites (traced search) query n sites (all_urls @ urls) (tr @ [(?q, n, urls)], w1)
          = ((all_urls @ urls) @ concat (map result_of new), ((tr @ [(?q, n, urls)]) @ new, w'))"
    and b: "search_sites search query n sites (all_urls @ urls) w1
          = ((all_urls @ urls) @ concat (map result_of new), w')"
    and c: "map call_of new = site_calls query n sites"
    by blast
  show ?case
    apply (rule exI [of _ "(?q, n, urls) # new"])
    apply (rule exI [of _ w'])
    using s a b c by (simp add: traced_apply site_calls_def call_of_triple result_of_triple)
qed

lemma search_categories_traced:
  "\<exists>new w'.
     search_categories (traced search) query cats all_urls (tr, w)
       = (all_urls @ concat (map result_of new), (tr @ new, w')) \<and>
     search_categories search query cats all_urls w = (all_urls @ concat (map result_of new), w') \<and>
     map call_of new =
       concat (map (\<lambda>cat. site_calls query 3 (take 2 (get_or (base_sites cat) [])))
                   (filter (\<lambda>cat. get_or (enabled cat) False) cats))"
proof (induction cats arbitrary: all_urls tr w)
  case Nil
  show ?case by simp
next
  case (Cons cat cats)
  show ?case
  proof (cases "get_or (enabled cat) False")
    case False
    with Cons.IH [of all_urls tr w] show ?thesis by simp
  next
    case True
    let ?sites = "take 2 (get_or (base_sites cat) [])"
    from search_sites_traced [of search query 3 ?sites all_urls tr w]
    obtain new1 w1 where
      a1: "search_sites (traced search) query 3 ?sites all_urls (tr, w)
            = (all_urls @ concat (map result_of new1), (tr @ new1, w1))"
      and b1: "search_sites search query 3 ?sites all_urls w
            = (all_urls @ concat (map result_of new1), w1)"
      and c1: "map call_of new1 = site_calls query 3 ?sites"
      by blast
    from Cons.IH [of "all_urls @ concat (map result_of new1)" "tr @ new1" w1]
    obtain new2 w2 where
      a2: "search_categories (traced search) query cats (all_urls @ concat (map result_of new1))
             (tr @ new1, w1)
            = ((all_urls @ concat (map result_of new1)) @ concat (map result_of new2),
               ((tr @ new1) @ new2, w2))"
      and b2: "search_categories search query cats (all_urls @ concat (map result_of new1)) w1
            = ((all_urls @ concat (map result_of new1)) @ concat (map result_of new2), w2)"
      and c2: "map call_of new2 =
         concat (map (\<lambda>cat. site_calls query 3 (take 2 (get_or (base_sites cat) [])))
                   (filter (\<lambda>cat. get_or (enabled cat) False) cats))"
      by blast
    show ?thesis
      apply (rule exI [of _ "new1 @ new2"])
      apply (rule exI [of _ w2])
      using True a1 b1 c1 a2 b2 c2 by simp
  qed
qed

lemma collect_urls_traced:
  "\<exists>tr w'.
     collect_urls (traced search) query cfg ([], w) = (concat (map result_of tr), (tr, w')) \<and>
     collect_urls search query cfg w = (concat (map result_of tr), w') \<and>
     map call_of tr = expected_calls query cfg"
proof -
  let ?n = "get_or (total_sources_limit cfg) 15 div 2"
  obtain g w1 where s: "search query ?n w = (g, w1)" by (cases "search query ?n w")
  let ?cats = "get_or (categories cfg) []"
  let ?cus = "take 3 (get_or (user_custom_sites cfg) [])"
  from search_categories_traced [of search query ?cats g "[(query, ?n, g)]" w1]
  obtain new2 w2 where
    a2: "search_categories (traced search) query ?cats g ([(query, ?n, g)], w1)
          = (g @ concat (map result_of new2), ([(query, ?n, g)] @ new2, w2))"
    and b2: "search_categories search query ?cats g w1 = (g @ concat (map result_of new2), w2)"
    and c2: "map call_of new2 =
         concat (map (\<lambda>cat. site_calls query 3 (take 2 (get_or (base_sites cat) [])))
                   (filter (\<lambda>cat. get_or (enabled cat) False) ?cats))"
    by blast
  from search_sites_traced [of search query 2 ?cus "g @ concat (map result_of new2)"
      "[(query, ?n, g)] @ new2" w2]
  obtain new3 w3 where
    a3: "search_sites (traced search) query 2 ?cus (g @ concat (map result_of new2))
           ([(query, ?n, g)] @ new2, w2)
          = ((g @ concat (map result_of new2)) @ concat (map result_of new3),
             (([(query, ?n, g)] @ new2) @ new3, w3))"
    and b3: "search_sites search query 2 ?cus (g @ concat (map result_of new2)) w2
          = ((g @ concat (map result_of new2)) @ concat (map result_of new3), w3)"
    and c3: "map call_of new3 = site_calls query 2 ?cus"
    by blast
  show ?thesis
    apply (rule exI [of _ "(query, ?n, g) # new2 @ new3"])
    apply (rule exI [of _ w3])
    using s a2 b2 c2 a3 b3 c3
    by (simp add: collect_urls_def traced_apply expected_calls_def call_of_triple result_of_triple)
qed

text \<open>
  C2. For every query, configuration and provider, the calls the aggregator makes before it
  filters are exactly the expected ones, in that order: the general query with limit
  \<open>total_limit div 2\<close>, the site queries of the enabled categories (two sites each, limit 3),
  the site queries of the first three custom sites (limit 2); the candidate list is the
  concatenation of the results of these calls in that order; and tracing the calls does not
  change the candidate list.
\<close>

theorem smart_search_calls:
  "map call_of (fst (snd (collect_urls (traced search) query cfg ([], w))))
     = expected_calls query cfg \<and>
   fst (collect_urls (traced search) query cfg ([], w))
     = concat (map result_of (fst (snd (collect_urls (traced search) query cfg ([], w))))) \<and>
   fst (collect_urls search query cfg w) = fst (collect_urls (traced search) query cfg ([], w))"
  using collect_urls_traced [of search query cfg w] by auto

section \<open>Fetcher\<close>

lemma scrape_url_response:
  assumes "all_available env" and "requests_get env url w = (Inr response, w')"
    and "\<not> length (content response) < 100"
    and "BeautifulSoup env (content response) = Inr soup"
  shows "scrape_url env url w =
     (if length (final_text env soup) < 100
      then (error_result (''Conte'' @ [char_of (250::nat)] @ ''do insuficiente (''
                            @ str_nat (length (final_text env soup)) @ '' chars)''), w')
      else ([(''type'', ''success''),
             (''url'', clean_url (url_parse env) url),
             (''title'', take 500 (extract_title soup)),
             (''content'', take 30000 (final_text env soup)),
             (''markdown'', take 30000 (final_text env soup))], w'))"
  using assms
  by (simp add: scrape_url_def all_available_def final_text_def stripped_def Let_def)

lemma error_result_not_success: "\<not> is_success (error_result m)"
  by (simp add: is_success_def error_result_def)

lemma scrape_url_cases:
  "(\<exists>m. fst (scrape_url env url w) = error_result m) \<or>
   (\<exists>soup. fst (scrape_url env url w) =
      [(''type'', ''success''),
       (''url'', clean_url (url_parse env) url),
       (''title'', take 500 (extract_title soup)),
       (''content'', take 30000 (final_text env soup)),
       (''markdown'', take 30000 (final_text env soup))])"
proof (cases "all_available env")
  case False
  then show ?thesis by (auto simp: scrape_url_def all_available_def)
next
  case av: True
  obtain r w' where g: "requests_get env url w = (r, w')" by (cases "requests_get env url w")
  show ?thesis
  proof (cases r)
    case (Inl e)
    with av g show ?thesis by (auto simp: scrape_url_def all_available_def)
  next
    case (Inr response)
    show ?thesis
    proof (cases "length (content response) < 100")
      case True
      with av g Inr show ?thesis by (auto simp: scrape_url_def all_available_def)
    next
      case long: False
      show ?thesis
      proof (cases "BeautifulSoup env (content response)")
        case (Inl e)
        with av g Inr long show ?thesis by (auto simp: scrape_url_def all_available_def)
      next
        case (Inr soup)
        from scrape_url_response [OF av g [unfolded \<open>r = Inr response\<close>] long Inr]
        show ?thesis by (cases "length (final_text env soup) < 100") auto
      qed
    qed
  qed
qed

text \<open>
  C4. Every success result of the fetcher has the same string as content and as markdown, of
  at most 30000 characters, a title of at most 500 characters, no message field, and as its
  URL the cleaned form of the requested URL.
\<close>

theorem scrape_url_success_shape:
  assumes "result = fst (scrape_url env url w)" and "is_success result"
  shows "\<exists>c t. map_of result ''content'' = Some c \<and> map_of result ''markdown'' = Some c \<and>
           length c \<le> 30000 \<and>
           map_of result ''title'' = Some t \<and> length t \<le> 500 \<and>
           map_of result ''message'' = None \<and>
           map_of result ''url'' = Some (clean_url (url_parse env) url)"
proof -
  from scrape_url_cases [of env url w] assms(1)
  consider (err) m where "result = error_result m"
    | (ok) soup where "result =
      [(''type'', ''success''),
       (''url'', clean_url (url_parse env) url),
       (''title'', take 500 (extract_title soup)),
       (''content'', take 30000 (final_text env soup)),
       (''markdown'', take 30000 (final_text env soup))]"
    by auto
  then show ?thesis
  proof cases
    case err
    with assms(2) show ?thesis by (simp add: error_result_not_success)
  next
    case ok
    then show ?thesis by simp
  qed
qed


theorem scrape_url_success_shape_witness:
  "is_success (fst (scrape_url (test_env article_page plain_handle)
                      ''https://example.com/post?id=1#top'' [Inr (body_of 120)])) \<and>
   (\<exists>c t. map_of (fst (scrape_url (test_env article_page plain_handle)
                      ''https://example.com/post?id=1#top'' [Inr (body_of 120)])) ''content''
             = Some c \<and>
          map_of (fst (scrape_url (test_env article_page plain_handle)
                      ''https://example.com/post?id=1#top'' [Inr (body_of 120)])) ''markdown''
             = Some c \<and>
          length c \<le> 30000 \<and>
          map_of (fst (scrape_url (test_env article_page plain_handle)
                      ''https://example.com/post?id=1#top'' [Inr (body_of 120)])) ''title''
             = Some t \<and>
          length t \<le> 500 \<and>
          map_of (fst (scrape_url (test_env article_page plain_handle)
                      ''https://example.com/post?id=1#top'' [Inr (body_of 120)])) ''message''
             = None \<and>
          map_of (fst (scrape_url (test_env article_page plain_handle)
                      ''https://example.com/post?id=1#top'' [Inr (body_of 120)])) ''url''
             = Some (clean_url (url_parse (test_env article_page plain_handle))
                       ''https://example.com/post?id=1#top'')) \<and>
   clean_url (url_parse (test_env article_page plain_handle))
     ''https://example.com/post?id=1#top'' = ''https://example.com/post''"
proof -
  let ?env = "test_env article_page plain_handle"
  have av: "all_available ?env" by code_simp
  have g: "requests_get ?env ''https://example.com/post?id=1#top'' [Inr (body_of 120)]
             = (Inr (body_of 120), [])" by code_simp
  have l: "\<not> length (content (body_of 120)) < 100" by code_simp
  have p: "BeautifulSoup ?env (content (body_of 120)) = Inr article_page" by code_simp
  have f: "final_text ?env article_page = replicate 300 CHR ''a''" by code_simp
  from scrape_url_response [OF av g l p] f
  have s: "is_success (fst (scrape_url ?env ''https://example.com/post?id=1#top''
                              [Inr (body_of 120)]))"
    by (simp add: is_success_def)
  have u: "clean_url (url_parse ?env) ''https://example.com/post?id=1#top''
             = ''https://example.com/post''"
    by code_simp
  from s u scrape_url_success_shape [OF refl s] show ?thesis by blast
qed

text \<open>
  C5. When the transport answers with a body of fewer than 100 bytes, the fetcher returns
  the failure \<open>Resposta muito curta (< 100 bytes)\<close> (response too short); when the final
  text of the page has fewer than 100 characters, it returns the failure
  \<open>Conteudo insuficiente (n chars)\<close> (insufficient content) with the number of characters;
  neither is a success.
\<close>

theorem scrape_url_too_short:
  assumes "all_available env" and "requests_get env url w = (Inr response, w')"
  shows "(length (content response) < 100 \<longrightarrow>
            fst (scrape_url env url w) = error_result ''Resposta muito curta (< 100 bytes)'' \<and>
            \<not> is_success (fst (scrape_url env url w))) \<and>
         (\<forall>soup. \<not> length (content response) < 100 \<and>
                 BeautifulSoup env (content response) = Inr soup \<and>
                 length (final_text env soup) < 100 \<longrightarrow>
            fst (scrape_url env url w)
              = error_result (''Conte'' @ [char_of (250::nat)] @ ''do insuficiente (''
                                @ str_nat (length (final_text env soup)) @ '' chars)'') \<and>
            \<not> is_success (fst (scrape_url env url w)))"
proof (intro conjI impI allI)
  assume "length (content response) < 100"
  with assms show "fst (scrape_url env url w) = error_result ''Resposta muito curta (< 100 bytes)''"
    by (simp add: scrape_url_def all_available_def)
  then show "\<not> is_success (fst (scrape_url env url w))"
    by (simp add: error_result_not_success)
next
  fix soup
  assume a: "\<not> length (content response) < 100 \<and>
             BeautifulSoup env (content response) = Inr soup \<and>
             length (final_text env soup) < 100"
  with scrape_url_response [OF assms, of soup]
  show e: "fst (scrape_url env url w)
              = error_result (''Conte'' @ [char_of (250::nat)] @ ''do insuficiente (''
                                @ str_nat (length (final_text env soup)) @ '' chars)'')"
    by simp
  show "\<not> is_success (fst (scrape_url env url w))"
    unfolding e by (rule error_result_not_success)
qed

theorem scrape_url_too_short_witness:
  "fst (scrape_url (test_env short_page plain_handle) ''https://example.com/'' [Inr (body_of 50)])
     = error_result ''Resposta muito curta (< 100 bytes)'' \<and>
   fst (scrape_url (test_env short_page plain_handle) ''https://example.com/'' [Inr (body_of 120)])
     = error_result (''Conte'' @ [char_of (250::nat)] @ ''do insuficiente (10 chars)'')"
proof -
  let ?env = "test_env short_page plain_handle"
  have av: "all_available ?env" by code_simp
  have g1: "requests_get ?env ''https://example.com/'' [Inr (body_of 50)] = (Inr (body_of 50), [])"
    by code_simp
  have g2: "requests_get ?env ''https://example.com/'' [Inr (body_of 120)] = (Inr (body_of 120), [])"
    by code_simp
  have l1: "length (content (body_of 50)) < 100" by code_simp
  have l2: "\<not> length (content (body_of 120)) < 100" by code_simp
  have p: "BeautifulSoup ?env (content (body_of 120)) = Inr short_page" by code_simp
  have f: "length (final_text ?env short_page) = 10" by code_simp
  have n: "str_nat 10 = ''10''" by code_simp
  from scrape_url_too_short [OF av g1] l1
  have r1: "fst (scrape_url ?env ''https://example.com/'' [Inr (body_of 50)])
     = error_result ''Resposta muito curta (< 100 bytes)''" by blast
  from scrape_url_too_short [OF av g2] l2 p f
  have "fst (scrape_url ?env ''https://example.com/'' [Inr (body_of 120)])
     = error_result (''Conte'' @ [char_of (250::nat)] @ ''do insuficiente (''
                       @ str_nat (length (final_text ?env short_page)) @ '' chars)'')"
    by simp
  with f n have r2: "fst (scrape_url ?env ''https://example.com/'' [Inr (body_of 120)])
     = error_result (''Conte'' @ [char_of (250::nat)] @ ''do insuficiente (10 chars)'')"
    by simp
  from r1 r2 show ?thesis by simp
qed

text \<open>
  C10. When the converter raises, the fetcher goes on with the plain text of the selected
  subtree, its pieces joined by newlines: if that text, cleaned up, has at least 100
  characters the result is a success carrying it, and otherwise the failure is the one for
  insufficient content.
\<close>

theorem converter_failure_falls_back:
  assumes "all_available env" and "requests_get env url w = (Inr response, w')"
    and "\<not> length (content response) < 100"
    and "BeautifulSoup env (content response) = Inr soup"
    and "html2text_handle env (select_main_content (stripped soup)) = None"
    and "fallback = clean_lines (get_text_sep ''\<newline>'' (select_main_content (stripped soup)))"
  shows "(100 \<le> length fallback \<longrightarrow>
            is_success (fst (scrape_url env url w)) \<and>
            map_of (fst (scrape_url env url w)) ''content'' = Some (take 30000 fallback) \<and>
            map_of (fst (scrape_url env url w)) ''markdown'' = Some (take 30000 fallback)) \<and>
         (length fallback < 100 \<longrightarrow>
            fst (scrape_url env url w)
              = error_result (''Conte'' @ [char_of (250::nat)] @ ''do insuficiente (''
                                @ str_nat (length fallback) @ '' chars)''))"
proof -
  have "final_text env soup = fallback"
    using assms(5,6) by (simp add: final_text_def)
  with scrape_url_response [OF assms(1-4)] show ?thesis
    by (simp add: is_success_def)
qed

theorem converter_failure_falls_back_witness:
  "html2text_handle (test_env article_page failing_handle)
     (select_main_content (stripped article_page)) = None \<and>
   is_success (fst (scrape_url (test_env article_page failing_handle)
                      ''https://example.com/post'' [Inr (body_of 120)])) \<and>
   map_of (fst (scrape_url (test_env article_page failing_handle)
                      ''https://example.com/post'' [Inr (body_of 120)])) ''content''
     = Some (replicate 300 CHR ''a'')"
proof -
  let ?env = "test_env article_page failing_handle"
  have av: "all_available ?env" by code_simp
  have g: "requests_get ?env ''https://example.com/post'' [Inr (body_of 120)]
             = (Inr (body_of 120), [])" by code_simp
  have l: "\<not> length (content (body_of 120)) < 100" by code_simp
  have p: "BeautifulSoup ?env (content (body_of 120)) = Inr article_page" by code_simp
  have h: "html2text_handle ?env (select_main_content (stripped article_page)) = None"
    by code_simp
  have f: "clean_lines (get_text_sep ''\<newline>'' (select_main_content (stripped article_page)))
             = replicate 300 CHR ''a''" by code_simp
  have n: "100 \<le> length (replicate 300 CHR ''a'')" by simp
  from converter_failure_falls_back [OF av g l p h f [symmetric]] n h show ?thesis
    by simp
qed

end
